theory Spec2Isabelle
  imports Complex_Main
begin

section \<open>Data model (types.ts)\<close>

text \<open>
  Every TypeScript \<open>number\<close> is modelled as a \<open>real\<close>: the arithmetic and the
  comparisons of the program are read over the real numbers, without rounding,
  infinities or NaN.  The \<open>Math.random()\<close> draws are parameters of the functions
  that consume them, in the order in which the source draws them.
\<close>

datatype PaddleId = PLeft | PRight

datatype Player = Player1 | Player2

record Coordinates =
  x :: real
  y :: real

record Dimensions =
  width :: real
  height :: real

text \<open>
  \<open>GameEntity extends Coordinates\<close>, \<open>Paddle extends GameEntity\<close> and
  \<open>Ball extends Coordinates\<close> are record extensions, so that a paddle can be passed
  where a \<open>GameEntity\<close> is expected.  The field \<open>id\<close> of a paddle is \<open>id'\<close> here.
\<close>

record GameEntity = Coordinates +
  width :: real
  height :: real

record Paddle = GameEntity +
  id' :: PaddleId
  speed :: real
  dy :: real
  score :: real

record Ball = Coordinates +
  radius :: real
  speedX :: real
  speedY :: real
  initialSpeed :: real

text \<open>
  \<open>keysPressed\<close> is a \<open>Record<string, boolean>\<close>: a key that was never written reads
  as \<open>undefined\<close>, which is falsy; it is a partial map here and a key is held when it
  maps to \<open>Some True\<close>.  \<open>winner\<close> is \<open>'Player 1' | 'Player 2' | null\<close>.
\<close>

record GameState =
  ball :: Ball
  paddleLeft :: Paddle
  paddleRight :: Paddle
  canvas :: Dimensions
  gamePaused :: bool
  gameOver :: bool
  winningScore :: real
  winner :: "Player option"
  keysPressed :: "string \<rightharpoonup> bool"


section \<open>Configuration (config.ts)\<close>

text \<open>The fields of \<open>CONFIG\<close> and of \<open>KEYS\<close> that the simulation reads.\<close>

definition canvasWidth :: real where "canvasWidth = 800"
definition canvasHeight :: real where "canvasHeight = 600"
definition paddleWidth :: real where "paddleWidth = 15"
definition paddleHeight :: real where "paddleHeight = 100"
definition paddleSpeed :: real where "paddleSpeed = 8"
definition paddleMargin :: real where "paddleMargin = 20"
definition ballRadius :: real where "ballRadius = 8"
definition ballInitialSpeed :: real where "ballInitialSpeed = 5"
definition ballSpeedIncreaseFactor :: real where "ballSpeedIncreaseFactor = 1.05"
definition ballMaxSpeed :: real where "ballMaxSpeed = 15"
definition configWinningScore :: real where "configWinningScore = 5"

definition player1Up :: string where "player1Up = ''w''"
definition player1Down :: string where "player1Down = ''s''"
definition player2Up :: string where "player2Up = ''ArrowUp''"
definition player2Down :: string where "player2Down = ''ArrowDown''"
definition pause :: string where "pause = ''p''"
definition restart :: string where "restart = ''r''"

text \<open>
  \<open>String.prototype.toLowerCase\<close>, on the ASCII letters: the configured keys and the
  key names of the keyboard events that matter here are ASCII.
\<close>

definition lowerChar :: "char \<Rightarrow> char" where
  "lowerChar c =
     (let n = (of_char c :: nat) in if 65 \<le> n \<and> n \<le> 90 then char_of (n + 32) else c)"

definition toLowerCase :: "string \<Rightarrow> string" where
  "toLowerCase s = map lowerChar s"

section \<open>Geometry utilities (utils.ts)\<close>

definition clamp :: "real \<Rightarrow> real \<Rightarrow> real \<Rightarrow> real" where
  "clamp v lo hi = max lo (min v hi)"

definition checkAABBCollision :: "'a GameEntity_scheme \<Rightarrow> 'b GameEntity_scheme \<Rightarrow> bool" where
  "checkAABBCollision rect1 rect2 \<longleftrightarrow>
     x rect1 < x rect2 + GameEntity.width rect2 \<and>
     x rect1 + GameEntity.width rect1 > x rect2 \<and>
     y rect1 < y rect2 + GameEntity.height rect2 \<and>
     y rect1 + GameEntity.height rect1 > y rect2"

definition checkBallPaddleCollision :: "Ball \<Rightarrow> Paddle \<Rightarrow> bool" where
  "checkBallPaddleCollision b p =
     (let ballRect = \<lparr> x = x b - radius b, y = y b - radius b,
                        width = radius b * 2, height = radius b * 2 \<rparr>
      in checkAABBCollision ballRect p)"

section \<open>Simulation core (game.ts)\<close>

text \<open>
  \<open>createInitialGameState\<close> draws twice: \<open>r1\<close> decides the sign of \<open>speedX\<close>,
  \<open>r2\<close> the vertical speed.  The key map starts with every configured key,
  lower-cased, set to false.
\<close>

definition initialKeysPressed :: "string \<rightharpoonup> bool" where
  "initialKeysPressed =
     fold (\<lambda>keyValue m. m(toLowerCase keyValue \<mapsto> False))
       [player1Up, player1Down, player2Up, player2Down, pause, restart] Map.empty"

definition createInitialGameState :: "real \<Rightarrow> real \<Rightarrow> GameState" where
  "createInitialGameState r1 r2 =
     \<lparr> ball = \<lparr> x = canvasWidth / 2, y = canvasHeight / 2,
                radius = ballRadius,
                speedX = ballInitialSpeed * (if r1 > 0.5 then 1 else -1),
                speedY = ballInitialSpeed * (r2 * 1.6 - 0.8),
                initialSpeed = ballInitialSpeed \<rparr>,
       paddleLeft = \<lparr> x = paddleMargin, y = canvasHeight / 2 - paddleHeight / 2,
                      width = paddleWidth, height = paddleHeight,
                      id' = PLeft, speed = paddleSpeed, dy = 0, score = 0 \<rparr>,
       paddleRight = \<lparr> x = canvasWidth - paddleWidth - paddleMargin,
                       y = canvasHeight / 2 - paddleHeight / 2,
                       width = paddleWidth, height = paddleHeight,
                       id' = PRight, speed = paddleSpeed, dy = 0, score = 0 \<rparr>,
       canvas = \<lparr> Dimensions.width = canvasWidth, Dimensions.height = canvasHeight \<rparr>,
       gamePaused = False, gameOver = False,
       winningScore = configWinningScore, winner = None,
       keysPressed = initialKeysPressed \<rparr>"

text \<open>
  \<open>resetBall\<close>: \<open>r1\<close> is the draw of the random factor; \<open>r2\<close> is the coin that
  the source flips only when the vertical speed came out as zero
  (\<open>ball.speedY || (Math.random() > 0.5 ? 1 : -1)\<close>).
\<close>

definition resetBall :: "real \<Rightarrow> real \<Rightarrow> Ball \<Rightarrow> real \<Rightarrow> Ball" where
  "resetBall r1 r2 b serveDirection =
     (let b1 = b\<lparr> x := canvasWidth / 2, y := canvasHeight / 2,
                  speedX := initialSpeed b * serveDirection \<rparr>;
          randomFactor = r1 * 0.8 - 0.4;
          b2 = b1\<lparr> speedY := initialSpeed b1 * randomFactor \<rparr>
      in if \<bar>speedY b2\<bar> < initialSpeed b2 * 0.1
         then b2\<lparr> speedY := (initialSpeed b2 * 0.1) *
                   sgn (if speedY b2 \<noteq> 0 then speedY b2
                        else (if r2 > 0.5 then 1 else -1)) \<rparr>
         else b2)"

definition updatePaddlePosition :: "Paddle \<Rightarrow> real \<Rightarrow> Paddle" where
  "updatePaddlePosition p cHeight =
     (let p1 = p\<lparr> y := y p + dy p * speed p \<rparr>
      in p1\<lparr> y := clamp (y p1) 0 (cHeight - GameEntity.height p1) \<rparr>)"

definition handleBallPaddleCollision :: "Ball \<Rightarrow> Paddle \<Rightarrow> Ball" where
  "handleBallPaddleCollision b p =
     (let b1 = b\<lparr> speedX := speedX b * (-1) \<rparr>;
          newSpeedXAbs = \<bar>speedX b1\<bar> * ballSpeedIncreaseFactor;
          b2 = b1\<lparr> speedX := min newSpeedXAbs ballMaxSpeed * sgn (speedX b1) \<rparr>;
          deltaY = y b2 - (y p + GameEntity.height p / 2);
          newSpeedY = deltaY * 0.25;
          b3 = b2\<lparr> speedY := clamp newSpeedY (- ballMaxSpeed) ballMaxSpeed \<rparr>
      in if id' p = PLeft
         then b3\<lparr> x := x p + GameEntity.width p + radius b3 + 0.1 \<rparr>
         else b3\<lparr> x := x p - radius b3 - 0.1 \<rparr>)"

definition checkWinCondition :: "GameState \<Rightarrow> GameState" where
  "checkWinCondition gs =
     (let gs1 =
            (if score (paddleLeft gs) \<ge> winningScore gs
             then gs\<lparr> gameOver := True, winner := Some Player1 \<rparr>
             else if score (paddleRight gs) \<ge> winningScore gs
             then gs\<lparr> gameOver := True, winner := Some Player2 \<rparr>
             else gs)
      in if gameOver gs1
         then gs1\<lparr> ball := (ball gs1)\<lparr> speedX := 0, speedY := 0 \<rparr> \<rparr>
         else gs1)"

text \<open>
  The first half of \<open>updateBall\<close>: integration, bounce off the top and bottom walls,
  bounce off the paddle the ball moves towards.  The second half, scoring, reads the
  ball this leaves.
\<close>

definition moveBall :: "GameState \<Rightarrow> Ball" where
  "moveBall gs =
     (let b0 = ball gs;
          b1 = b0\<lparr> x := x b0 + speedX b0 \<rparr>;
          b2 = b1\<lparr> y := y b1 + speedY b1 \<rparr>;
          b3 = (if y b2 - radius b2 < 0
                then b2\<lparr> y := radius b2, speedY := speedY b2 * (-1) \<rparr>
                else if y b2 + radius b2 > Dimensions.height (canvas gs)
                then b2\<lparr> y := Dimensions.height (canvas gs) - radius b2,
                         speedY := speedY b2 * (-1) \<rparr>
                else b2)
      in if speedX b3 < 0 \<and> checkBallPaddleCollision b3 (paddleLeft gs)
         then handleBallPaddleCollision b3 (paddleLeft gs)
         else if speedX b3 > 0 \<and> checkBallPaddleCollision b3 (paddleRight gs)
         then handleBallPaddleCollision b3 (paddleRight gs)
         else b3)"

text \<open>
  The second half of \<open>updateBall\<close>, scoring; \<open>r1\<close> and \<open>r2\<close> are the draws of
  the \<open>resetBall\<close> it may call.
\<close>

definition updateBall :: "real \<Rightarrow> real \<Rightarrow> GameState \<Rightarrow> GameState" where
  "updateBall r1 r2 gs =
     (let gs1 = gs\<lparr> ball := moveBall gs \<rparr>
      in if x (ball gs1) + radius (ball gs1) < 0
         then (let gs2 = gs1\<lparr> paddleRight :=
                            (paddleRight gs1)\<lparr> score := score (paddleRight gs1) + 1 \<rparr> \<rparr>;
                   gs3 = checkWinCondition gs2
               in if \<not> gameOver gs3 then gs3\<lparr> ball := resetBall r1 r2 (ball gs3) 1 \<rparr>
                  else gs3)
         else if x (ball gs1) - radius (ball gs1) > Dimensions.width (canvas gs1)
         then (let gs2 = gs1\<lparr> paddleLeft :=
                            (paddleLeft gs1)\<lparr> score := score (paddleLeft gs1) + 1 \<rparr> \<rparr>;
                   gs3 = checkWinCondition gs2
               in if \<not> gameOver gs3 then gs3\<lparr> ball := resetBall r1 r2 (ball gs3) (-1) \<rparr>
                  else gs3)
         else gs1)"



definition updateGameState :: "real \<Rightarrow> real \<Rightarrow> GameState \<Rightarrow> GameState" where
  "updateGameState r1 r2 gs =
     (if gamePaused gs \<or> gameOver gs then gs
      else (let gs1 = gs\<lparr> paddleLeft :=
                           updatePaddlePosition (paddleLeft gs) (Dimensions.height (canvas gs)) \<rparr>;
                gs2 = gs1\<lparr> paddleRight :=
                           updatePaddlePosition (paddleRight gs1) (Dimensions.height (canvas gs1)) \<rparr>
            in updateBall r1 r2 gs2))"

section \<open>Input adapter (input.ts)\<close>

definition held :: "GameState \<Rightarrow> string \<Rightarrow> bool" where
  "held gs k \<longleftrightarrow> keysPressed gs (toLowerCase k) = Some True"

definition processPaddleInputs :: "GameState \<Rightarrow> GameState" where
  "processPaddleInputs gs =
     (if gamePaused gs \<or> gameOver gs
      then gs\<lparr> paddleLeft := (paddleLeft gs)\<lparr> dy := 0 \<rparr>,
               paddleRight := (paddleRight gs)\<lparr> dy := 0 \<rparr> \<rparr>
      else (let gs1 = gs\<lparr> paddleLeft := (paddleLeft gs)\<lparr> dy :=
                           (if held gs player1Up then -1
                            else if held gs player1Down then 1 else 0) \<rparr> \<rparr>
            in gs1\<lparr> paddleRight := (paddleRight gs1)\<lparr> dy :=
                           (if held gs1 player2Up then -1
                            else if held gs1 player2Down then 1 else 0) \<rparr> \<rparr>))"

text \<open>
  The \<open>keydown\<close> listener of \<open>setupInputHandlers\<close>: the new state, and whether it
  called \<open>onRestart\<close>.  The \<open>keyup\<close> listener only clears the key.
\<close>

definition keydown :: "string \<Rightarrow> GameState \<Rightarrow> GameState \<times> bool" where
  "keydown eventKey gs =
     (let key = toLowerCase eventKey;
          gs1 = gs\<lparr> keysPressed := (keysPressed gs)(key \<mapsto> True) \<rparr>;
          gs2 = (if key = toLowerCase pause \<and> \<not> gameOver gs1
                 then gs1\<lparr> gamePaused := \<not> gamePaused gs1 \<rparr> else gs1)
      in (gs2, key = toLowerCase restart \<and> gameOver gs2))"

definition keyup :: "string \<Rightarrow> GameState \<Rightarrow> GameState" where
  "keyup eventKey gs = gs\<lparr> keysPressed := (keysPressed gs)(toLowerCase eventKey \<mapsto> False) \<rparr>"

section \<open>Game loop (main.ts)\<close>

text \<open>
  What happens to the state that \<open>PongGame\<close> holds: a frame of \<open>gameLoop\<close>
  (\<open>processPaddleInputs\<close>, then \<open>updateGameState\<close>; rendering reads the state and
  is left out), a key going down or up, and \<open>restartGame\<close>, which replaces the state
  by a fresh one.  \<open>restartGame\<close> is public, and after a first restart the listeners
  of the replaced state are still registered and call it too, so \<open>Restart\<close> may
  happen at any time.  Each event carries the random draws it may consume.
\<close>

datatype Event =
  Frame real real
| KeyDown string real real
| KeyUp string
| Restart real real

definition gameLoop :: "real \<Rightarrow> real \<Rightarrow> GameState \<Rightarrow> GameState" where
  "gameLoop r1 r2 gs = updateGameState r1 r2 (processPaddleInputs gs)"

fun step :: "Event \<Rightarrow> GameState \<Rightarrow> GameState" where
  "step (Frame r1 r2) gs = gameLoop r1 r2 gs"
| "step (KeyDown k r1 r2) gs =
     (case keydown k gs of (gs1, restartRequested) \<Rightarrow>
        if restartRequested then createInitialGameState r1 r2 else gs1)"
| "step (KeyUp k) gs = keyup k gs"
| "step (Restart r1 r2) gs = createInitialGameState r1 r2"

definition run :: "Event list \<Rightarrow> GameState \<Rightarrow> GameState" where
  "run es gs = fold step es gs"

section \<open>Test states\<close>

text \<open>
  \<open>freshGame\<close> is the state of a fresh game whose first serve goes to the right and
  upwards.  \<open>rally\<close> is that game with the ball and the scores set: no key has been
  pressed, so both paddles still stand at the middle of their edge.
\<close>

definition freshGame :: GameState where
  "freshGame = createInitialGameState 0.75 0.25"

definition rally :: "real \<Rightarrow> real \<Rightarrow> real \<Rightarrow> real \<Rightarrow> real \<Rightarrow> real \<Rightarrow> GameState" where
  "rally bX bY vX vY sL sR =
     freshGame\<lparr> ball := \<lparr> x = bX, y = bY, radius = ballRadius,
                         speedX = vX, speedY = vY, initialSpeed = ballInitialSpeed \<rparr>,
              paddleLeft := (paddleLeft freshGame)\<lparr> score := sL \<rparr>,
              paddleRight := (paddleRight freshGame)\<lparr> score := sR \<rparr> \<rparr>"

text \<open>
  \<open>matchPoint\<close> is a sequence of events that takes \<open>freshGame\<close> to four points
  each with the ball about to leave on the right, and then presses the key that moves
  the left paddle up.  \<open>ballStopped\<close> says that the ball of a finished game does not
  move.
\<close>

definition matchPoint :: "Event list" where
  "matchPoint = replicate 737 (Frame 0 0) @ [KeyDown ''w'' 0 0]"


definition ballStopped :: "GameState \<Rightarrow> bool" where
  "ballStopped gs \<longleftrightarrow> (gameOver gs \<longrightarrow> speedX (ball gs) = 0 \<and> speedY (ball gs) = 0)"

section \<open>A finished or paused game does not move\<close>

lemma updateGameState_noop:
  "gamePaused gs \<or> gameOver gs \<Longrightarrow> updateGameState r1 r2 gs = gs"
  by (simp add: updateGameState_def)

text \<open>
  C1.  When \<open>gameOver\<close> or \<open>gamePaused\<close> is set, \<open>updateGameState\<close> returns the
  state it was given, whatever the random draws, and so does any sequence of calls:
  ball, paddles, scores, flags and winner are all as before.
\<close>

theorem updateGameState_frozen:
  assumes "gameOver gs \<or> gamePaused gs"
  shows "fold (\<lambda>(r1, r2). updateGameState r1 r2) draws gs = gs"
  using assms by (induction draws) (auto simp: updateGameState_noop)

theorem updateGameState_frozen_witness:
  "gameOver (freshGame\<lparr> gameOver := True \<rparr>) \<and>
   fold (\<lambda>(r1, r2). updateGameState r1 r2) [(0.1, 0.2), (0.3, 0.4), (0.5, 0.6)]
     (freshGame\<lparr> gameOver := True \<rparr>) = freshGame\<lparr> gameOver := True \<rparr> \<and>
   gamePaused (freshGame\<lparr> gamePaused := True \<rparr>) \<and>
   fold (\<lambda>(r1, r2). updateGameState r1 r2) [(0.1, 0.2), (0.3, 0.4), (0.5, 0.6)]
     (freshGame\<lparr> gamePaused := True \<rparr>) = freshGame\<lparr> gamePaused := True \<rparr>"
  using updateGameState_frozen [of "freshGame\<lparr> gameOver := True \<rparr>"
          "[(0.1, 0.2), (0.3, 0.4), (0.5, 0.6)]"]
        updateGameState_frozen [of "freshGame\<lparr> gamePaused := True \<rparr>"
          "[(0.1, 0.2), (0.3, 0.4), (0.5, 0.6)]"]
  by simp

section \<open>Paddle bounce\<close>

text \<open>
  C3.  After \<open>handleBallPaddleCollision\<close> neither speed exceeds \<open>ballMaxSpeed\<close> in
  magnitude, whatever the speeds before: the horizontal speed has the opposite sign
  and the magnitude \<open>min (|speedX| * ballSpeedIncreaseFactor) ballMaxSpeed\<close>, and the
  vertical speed is a quarter of the offset of the ball from the middle of the
  paddle, clamped to \<open>[- ballMaxSpeed, ballMaxSpeed]\<close>.
\<close>

theorem handleBallPaddleCollision_speeds:
  "\<bar>speedX (handleBallPaddleCollision b p)\<bar> \<le> ballMaxSpeed \<and>
   \<bar>speedY (handleBallPaddleCollision b p)\<bar> \<le> ballMaxSpeed \<and>
   speedX (handleBallPaddleCollision b p) =
     - sgn (speedX b) * min (\<bar>speedX b\<bar> * ballSpeedIncreaseFactor) ballMaxSpeed \<and>
   speedY (handleBallPaddleCollision b p) =
     clamp ((y b - (y p + GameEntity.height p / 2)) * 0.25) (- ballMaxSpeed) ballMaxSpeed"
proof -
  have sx: "speedX (handleBallPaddleCollision b p) =
      - sgn (speedX b) * min (\<bar>speedX b\<bar> * ballSpeedIncreaseFactor) ballMaxSpeed"
    by (simp add: handleBallPaddleCollision_def Let_def sgn_minus)
  have sy: "speedY (handleBallPaddleCollision b p) =
      clamp ((y b - (y p + GameEntity.height p / 2)) * 0.25) (- ballMaxSpeed) ballMaxSpeed"
    by (simp add: handleBallPaddleCollision_def Let_def)
  have "\<bar>- sgn (speedX b) * min (\<bar>speedX b\<bar> * ballSpeedIncreaseFactor) ballMaxSpeed\<bar>
        \<le> ballMaxSpeed"
    by (cases "speedX b = 0")
       (auto simp: abs_mult ballMaxSpeed_def ballSpeedIncreaseFactor_def abs_sgn_eq)
  moreover have "\<bar>clamp v (- ballMaxSpeed) ballMaxSpeed\<bar> \<le> ballMaxSpeed" for v
    by (auto simp: clamp_def ballMaxSpeed_def)
  ultimately show ?thesis using sx sy by simp
qed

text \<open>
  C10.  The vertical speed after a paddle bounce does not depend on the vertical
  speed before it: two balls that differ in \<open>speedY\<close> only leave the paddle with the
  same \<open>speedY\<close>, which is a function of the ball's \<open>y\<close> and the paddle's \<open>y\<close> and
  \<open>height\<close>.
\<close>

theorem bounce_speedY_independent:
  "speedY (handleBallPaddleCollision (b\<lparr> speedY := v1 \<rparr>) p) =
   speedY (handleBallPaddleCollision (b\<lparr> speedY := v2 \<rparr>) p) \<and>
   speedY (handleBallPaddleCollision b p) =
     clamp ((y b - (y p + GameEntity.height p / 2)) * 0.25) (- ballMaxSpeed) ballMaxSpeed"
  by (simp add: handleBallPaddleCollision_def Let_def)

section \<open>Serve\<close>

text \<open>
  C5.  For a serve direction of 1 or -1 and draws in \<open>[0, 1)\<close>, \<open>resetBall\<close> puts
  the ball at the centre of the configured field, gives it the horizontal speed
  \<open>initialSpeed * serveDirection\<close> and a vertical speed of magnitude at least
  \<open>0.1 * initialSpeed\<close>; with a positive \<open>initialSpeed\<close> the vertical speed is
  therefore not zero.
\<close>

theorem resetBall_serve:
  assumes "d = 1 \<or> d = -1" and "0 \<le> r1" and "r1 < 1" and "0 \<le> r2" and "r2 < 1"
  shows "x (resetBall r1 r2 b d) = canvasWidth / 2 \<and>
         y (resetBall r1 r2 b d) = canvasHeight / 2 \<and>
         speedX (resetBall r1 r2 b d) = initialSpeed b * d \<and>
         \<bar>speedY (resetBall r1 r2 b d)\<bar> \<ge> 0.1 * initialSpeed b \<and>
         (0 < initialSpeed b \<longrightarrow> speedY (resetBall r1 r2 b d) \<noteq> 0)"
  by (auto simp: resetBall_def Let_def abs_mult sgn_if)

theorem resetBall_serve_witness:
  "((-1::real) = 1 \<or> (-1::real) = -1) \<and> (0::real) \<le> 1 / 2 \<and> (1 / 2 :: real) < 1 \<and>
   (0::real) \<le> 1 / 4 \<and> (1 / 4 :: real) < 1 \<and>
   0 < initialSpeed (ball freshGame) \<and>
   x (resetBall (1 / 2) (1 / 4) (ball freshGame) (-1)) = canvasWidth / 2 \<and>
   y (resetBall (1 / 2) (1 / 4) (ball freshGame) (-1)) = canvasHeight / 2 \<and>
   speedX (resetBall (1 / 2) (1 / 4) (ball freshGame) (-1)) = initialSpeed (ball freshGame) * (-1) \<and>
   \<bar>speedY (resetBall (1 / 2) (1 / 4) (ball freshGame) (-1))\<bar> \<ge> 0.1 * initialSpeed (ball freshGame) \<and>
   speedY (resetBall (1 / 2) (1 / 4) (ball freshGame) (-1)) \<noteq> 0"
  using resetBall_serve [of "-1" "1 / 2" "1 / 4" "ball freshGame"]
  by (simp add: freshGame_def createInitialGameState_def ballInitialSpeed_def)

section \<open>Win condition\<close>

text \<open>
  C7.  When a score has reached \<open>winningScore\<close>, \<open>checkWinCondition\<close> sets
  \<open>gameOver\<close>, stops the ball, and names as winner a player whose score reached
  \<open>winningScore\<close>: Player 1 when the left paddle's did, Player 2 otherwise.  The
  result is the given state with these fields set once, by one branch: when both
  scores have reached \<open>winningScore\<close> the winner is Player 1.
\<close>

theorem checkWinCondition_win:
  assumes "score (paddleLeft gs) \<ge> winningScore gs \<or> score (paddleRight gs) \<ge> winningScore gs"
  shows "gameOver (checkWinCondition gs) \<and>
         speedX (ball (checkWinCondition gs)) = 0 \<and>
         speedY (ball (checkWinCondition gs)) = 0 \<and>
         winner (checkWinCondition gs) =
           Some (if score (paddleLeft gs) \<ge> winningScore gs then Player1 else Player2) \<and>
         (winner (checkWinCondition gs) = Some Player1
            \<longrightarrow> score (paddleLeft gs) \<ge> winningScore gs) \<and>
         (winner (checkWinCondition gs) = Some Player2
            \<longrightarrow> score (paddleRight gs) \<ge> winningScore gs) \<and>
         checkWinCondition gs =
           gs\<lparr> gameOver := True,
               winner := Some (if score (paddleLeft gs) \<ge> winningScore gs
                               then Player1 else Player2),
               ball := (ball gs)\<lparr> speedX := 0, speedY := 0 \<rparr> \<rparr>"
  using assms by (auto simp: checkWinCondition_def Let_def)

theorem checkWinCondition_win_witness:
  "(score (paddleLeft (rally 810 138 5 (-2) 4 5)) \<ge> winningScore (rally 810 138 5 (-2) 4 5) \<or>
    score (paddleRight (rally 810 138 5 (-2) 4 5)) \<ge> winningScore (rally 810 138 5 (-2) 4 5)) \<and>
   gameOver (checkWinCondition (rally 810 138 5 (-2) 4 5)) \<and>
   speedX (ball (checkWinCondition (rally 810 138 5 (-2) 4 5))) = 0 \<and>
   speedY (ball (checkWinCondition (rally 810 138 5 (-2) 4 5))) = 0 \<and>
   winner (checkWinCondition (rally 810 138 5 (-2) 4 5)) = Some Player2 \<and>
   score (paddleRight (rally 810 138 5 (-2) 4 5)) \<ge> winningScore (rally 810 138 5 (-2) 4 5)"
  using checkWinCondition_win [of "rally 810 138 5 (-2) 4 5"]
  by (simp add: rally_def freshGame_def createInitialGameState_def configWinningScore_def)

section \<open>Paddle movement\<close>

text \<open>
  C8.  For a paddle no taller than the field and a \<open>dy\<close> of -1, 0 or 1,
  \<open>updatePaddlePosition\<close> leaves the paddle with \<open>0 \<le> y \<le> canvasHeight - height\<close>,
  wherever it started.
\<close>

theorem updatePaddlePosition_in_field:
  assumes "GameEntity.height p \<le> cHeight" and "dy p \<in> {-1, 0, 1}"
  shows "0 \<le> y (updatePaddlePosition p cHeight) \<and>
         y (updatePaddlePosition p cHeight) \<le> cHeight - GameEntity.height p"
  using assms by (auto simp: updatePaddlePosition_def clamp_def Let_def)

theorem updatePaddlePosition_in_field_witness:
  "GameEntity.height ((paddleLeft freshGame)\<lparr> y := - 30, dy := - 1 \<rparr>) \<le> 600 \<and>
   dy ((paddleLeft freshGame)\<lparr> y := - 30, dy := - 1 \<rparr>) \<in> {-1, 0, 1} \<and>
   0 \<le> y (updatePaddlePosition ((paddleLeft freshGame)\<lparr> y := - 30, dy := - 1 \<rparr>) 600) \<and>
   y (updatePaddlePosition ((paddleLeft freshGame)\<lparr> y := - 30, dy := - 1 \<rparr>) 600)
     \<le> 600 - GameEntity.height ((paddleLeft freshGame)\<lparr> y := - 30, dy := - 1 \<rparr>)"
  using updatePaddlePosition_in_field [of "(paddleLeft freshGame)\<lparr> y := - 30, dy := - 1 \<rparr>" 600]
  by (simp add: freshGame_def createInitialGameState_def paddleHeight_def)

section \<open>Overlap test\<close>

text \<open>
  C9.  \<open>checkAABBCollision\<close> is symmetric in its two rectangles, and it is false
  whenever one rectangle ends exactly where the other begins, horizontally or
  vertically.
\<close>

theorem checkAABBCollision_symmetric:
  "checkAABBCollision a b = checkAABBCollision b a \<and>
   (x a + GameEntity.width a = x b \<or> x b + GameEntity.width b = x a \<or>
    y a + GameEntity.height a = y b \<or> y b + GameEntity.height b = y a
    \<longrightarrow> \<not> checkAABBCollision a b)"
  by (auto simp: checkAABBCollision_def)

theorem checkAABBCollision_symmetric_witness:
  "x \<lparr> x = 0, y = 0, width = 10, height = 10 \<rparr>
     + GameEntity.width \<lparr> x = 0, y = 0, width = 10, height = 10 \<rparr>
     = x ((paddleLeft freshGame)\<lparr> x := 10, y := 5 \<rparr>) \<and>
   \<not> checkAABBCollision \<lparr> x = 0, y = 0, width = 10, height = 10 \<rparr>
        ((paddleLeft freshGame)\<lparr> x := 10, y := 5 \<rparr>) \<and>
   \<not> checkAABBCollision ((paddleLeft freshGame)\<lparr> x := 10, y := 5 \<rparr>)
        \<lparr> x = 0, y = 0, width = 10, height = 10 \<rparr>"
  using checkAABBCollision_symmetric [of "\<lparr> x = 0, y = 0, width = 10, height = 10 \<rparr>"
          "(paddleLeft freshGame)\<lparr> x := 10, y := 5 \<rparr>"]
  by auto

section \<open>A rally in which nobody touches the keys\<close>

text \<open>
  With no key held the paddles stay where they are, and a ball served at the speed
  \<open>(5, -2)\<close> or \<open>(-5, -2)\<close> flies past them in a straight line: it is level with a
  paddle only while it is still far from it.  These lemmas follow such a game frame
  by frame.
\<close>

lemma lower_keys:
  "toLowerCase ''w'' = ''w''" "toLowerCase ''s'' = ''s''"
  "toLowerCase ''ArrowUp'' = ''arrowup''" "toLowerCase ''ArrowDown'' = ''arrowdown''"
  "toLowerCase ''p'' = ''p''" "toLowerCase ''r'' = ''r''"
  by code_simp+

lemmas keys_defs = player1Up_def player1Down_def player2Up_def player2Down_def pause_def restart_def

lemma init_keys:
  "initialKeysPressed = [''w'' \<mapsto> False, ''s'' \<mapsto> False, ''arrowup'' \<mapsto> False,
     ''arrowdown'' \<mapsto> False, ''p'' \<mapsto> False, ''r'' \<mapsto> False]"
  by (simp add: initialKeysPressed_def lower_keys keys_defs)

lemma not_held_initial:
  assumes "keysPressed gs = initialKeysPressed"
  shows "\<not> held gs player1Up" "\<not> held gs player1Down" "\<not> held gs player2Up" "\<not> held gs player2Down"
  using assms by (simp_all add: held_def init_keys lower_keys keys_defs)

lemma keys_rally: "keysPressed (rally a b c d e f) = initialKeysPressed"
  by (simp add: rally_def freshGame_def createInitialGameState_def)

lemma inputs_rally: "processPaddleInputs (rally a b c d e f) = rally a b c d e f"
  by (simp add: processPaddleInputs_def Let_def not_held_initial keys_rally)
     (simp add: rally_def freshGame_def createInitialGameState_def)

lemmas cfg = canvasWidth_def canvasHeight_def paddleWidth_def paddleHeight_def paddleSpeed_def
  paddleMargin_def ballRadius_def ballInitialSpeed_def ballSpeedIncreaseFactor_def ballMaxSpeed_def
  configWinningScore_def

lemma paddles_rally:
  "updatePaddlePosition (paddleLeft (rally a b c d e f)) 600 = paddleLeft (rally a b c d e f)"
  "updatePaddlePosition (paddleRight (rally a b c d e f)) 600 = paddleRight (rally a b c d e f)"
  by (simp_all add: rally_def freshGame_def createInitialGameState_def updatePaddlePosition_def
        clamp_def cfg)

lemma moveBall_rally:
  assumes "8 \<le> b + d" and "b + d \<le> 592"
    and "(43 \<le> a + c \<and> a + c \<le> 757) \<or> b + d \<le> 242"
  shows "moveBall (rally a b c d e f) = ball (rally (a + c) (b + d) c d e f)"
  using assms
  by (auto simp add: moveBall_def rally_def freshGame_def createInitialGameState_def Let_def
        checkBallPaddleCollision_def checkAABBCollision_def cfg)


lemma rally_fields:
  "gamePaused (rally a b c d e f) = False" "gameOver (rally a b c d e f) = False"
  "Dimensions.height (canvas (rally a b c d e f)) = 600"
  "Dimensions.width (canvas (rally a b c d e f)) = 800"
  "winningScore (rally a b c d e f) = 5"
  "ball (rally a b c d e f) =
     \<lparr> x = a, y = b, radius = 8, speedX = c, speedY = d, initialSpeed = 5 \<rparr>"
  "score (paddleLeft (rally a b c d e f)) = e" "score (paddleRight (rally a b c d e f)) = f"
  by (simp_all add: rally_def freshGame_def createInitialGameState_def cfg)

lemma rally_self_update:
  "(rally a b c d e f)\<lparr> paddleLeft := paddleLeft (rally a b c d e f) \<rparr> = rally a b c d e f"
  "(rally a b c d e f)\<lparr> paddleRight := paddleRight (rally a b c d e f) \<rparr> = rally a b c d e f"
  by simp_all

lemma rally_ball_update:
  "(rally a b c d e f)\<lparr> ball := ball (rally a' b' c' d' e' f') \<rparr> = rally a' b' c' d' e f"
  by (simp add: rally_def)

lemma rally_score_update:
  "(rally a b c d e f)\<lparr> paddleLeft := (paddleLeft (rally a b c d e f))\<lparr> score := e' \<rparr> \<rparr>
     = rally a b c d e' f"
  "(rally a b c d e f)\<lparr> paddleRight := (paddleRight (rally a b c d e f))\<lparr> score := f' \<rparr> \<rparr>
     = rally a b c d e f'"
  by (simp_all add: rally_def)

lemma updateGameState_rally:
  "updateGameState r1 r2 (rally a b c d e f) = updateBall r1 r2 (rally a b c d e f)"
  by (simp add: updateGameState_def Let_def rally_fields paddles_rally rally_self_update)

lemma frame_flight:
  assumes "8 \<le> b + d" and "b + d \<le> 592"
    and "(43 \<le> a + c \<and> a + c \<le> 757) \<or> b + d \<le> 242"
    and "- 8 \<le> a + c" and "a + c \<le> 808"
  shows "gameLoop r1 r2 (rally a b c d e f) = rally (a + c) (b + d) c d e f"
  using assms
  by (simp add: gameLoop_def inputs_rally updateGameState_rally updateBall_def
        Let_def moveBall_rally rally_fields)
     (simp add: rally_def cfg)

lemma frame_left_scores:
  assumes "8 \<le> b + d" and "b + d \<le> 242" and "808 < a + c" and "e + 1 < 5" and "f < 5"
  shows "gameLoop 0 0 (rally a b c d e f) = rally 400 300 (- 5) (- 2) (e + 1) f"
  using assms
  by (simp add: gameLoop_def inputs_rally updateGameState_rally updateBall_def
        Let_def moveBall_rally rally_ball_update rally_fields
        rally_score_update checkWinCondition_def resetBall_def cfg)
     (simp add: rally_def cfg)

lemma frame_right_scores:
  assumes "8 \<le> b + d" and "b + d \<le> 242" and "a + c < - 8" and "f + 1 < 5" and "e < 5"
  shows "gameLoop 0 0 (rally a b c d e f) = rally 400 300 5 (- 2) e (f + 1)"
  using assms
  by (simp add: gameLoop_def inputs_rally updateGameState_rally updateBall_def
        Let_def moveBall_rally rally_ball_update rally_fields
        rally_score_update checkWinCondition_def resetBall_def cfg)
     (simp add: rally_def cfg)


lemma fresh_rally: "freshGame = rally 400 300 5 (- 2) 0 0"
  by (simp add: rally_def freshGame_def createInitialGameState_def cfg)

lemma flight_right:
  "n \<le> 81 \<Longrightarrow> (gameLoop r1 r2 ^^ n) (rally 400 300 5 (- 2) e f)
     = rally (400 + 5 * real n) (300 - 2 * real n) 5 (- 2) e f"
proof (induction n)
  case 0
  show ?case by simp
next
  case (Suc n)
  then have le: "real n \<le> 80" by simp
  have "gameLoop r1 r2 (rally (400 + 5 * real n) (300 - 2 * real n) 5 (- 2) e f)
      = rally (400 + 5 * real n + 5) (300 - 2 * real n + - 2) 5 (- 2) e f"
    using le by (intro frame_flight) auto
  with Suc show ?case by (simp add: algebra_simps)
qed

lemma flight_left:
  "n \<le> 81 \<Longrightarrow> (gameLoop r1 r2 ^^ n) (rally 400 300 (- 5) (- 2) e f)
     = rally (400 - 5 * real n) (300 - 2 * real n) (- 5) (- 2) e f"
proof (induction n)
  case 0
  show ?case by simp
next
  case (Suc n)
  then have le: "real n \<le> 80" by simp
  have "gameLoop r1 r2 (rally (400 - 5 * real n) (300 - 2 * real n) (- 5) (- 2) e f)
      = rally (400 - 5 * real n + - 5) (300 - 2 * real n + - 2) (- 5) (- 2) e f"
    using le by (intro frame_flight) auto
  with Suc show ?case by (simp add: algebra_simps)
qed

lemma funpow_Suc_numeral: "(g ^^ Suc n) s = g ((g ^^ n) s)"
  by simp

lemma round_right:
  assumes "e + 1 < 5" and "f < 5"
  shows "(gameLoop 0 0 ^^ 82) (rally 400 300 5 (- 2) e f) = rally 400 300 (- 5) (- 2) (e + 1) f"
proof -
  have "(gameLoop 0 0 ^^ 82) (rally 400 300 5 (- 2) e f)
      = gameLoop 0 0 ((gameLoop 0 0 ^^ 81) (rally 400 300 5 (- 2) e f))"
    using funpow_Suc_numeral [where g = "gameLoop 0 0" and n = 81] by simp
  also have "\<dots> = gameLoop 0 0 (rally 805 138 5 (- 2) e f)"
    using flight_right [of 81 0 0 e f] by simp
  also have "\<dots> = rally 400 300 (- 5) (- 2) (e + 1) f"
    using assms by (intro frame_left_scores) auto
  finally show ?thesis .
qed

lemma round_left:
  assumes "f + 1 < 5" and "e < 5"
  shows "(gameLoop 0 0 ^^ 82) (rally 400 300 (- 5) (- 2) e f) = rally 400 300 5 (- 2) e (f + 1)"
proof -
  have "(gameLoop 0 0 ^^ 82) (rally 400 300 (- 5) (- 2) e f)
      = gameLoop 0 0 ((gameLoop 0 0 ^^ 81) (rally 400 300 (- 5) (- 2) e f))"
    using funpow_Suc_numeral [where g = "gameLoop 0 0" and n = 81] by simp
  also have "\<dots> = gameLoop 0 0 (rally (- 5) 138 (- 5) (- 2) e f)"
    using flight_left [of 81 0 0 e f] by simp
  also have "\<dots> = rally 400 300 5 (- 2) e (f + 1)"
    using assms by (intro frame_right_scores) auto
  finally show ?thesis .
qed

lemma two_rounds:
  assumes "e + 1 < 5" and "f + 1 < 5"
  shows "(gameLoop 0 0 ^^ 164) (rally 400 300 5 (- 2) e f) = rally 400 300 5 (- 2) (e + 1) (f + 1)"
proof -
  have "(164::nat) = 82 + 82" by simp
  then have "(gameLoop 0 0 ^^ 164) (rally 400 300 5 (- 2) e f)
      = (gameLoop 0 0 ^^ 82) ((gameLoop 0 0 ^^ 82) (rally 400 300 5 (- 2) e f))"
    by (simp only: funpow_add o_apply)
  also have "\<dots> = (gameLoop 0 0 ^^ 82) (rally 400 300 (- 5) (- 2) (e + 1) f)"
    using assms by (subst round_right) auto
  also have "\<dots> = rally 400 300 5 (- 2) (e + 1) (f + 1)"
    using assms by (intro round_left) auto
  finally show ?thesis .
qed

lemma eight_rounds:
  "(gameLoop 0 0 ^^ 656) freshGame = rally 400 300 5 (- 2) 4 4"
proof -
  have "(656::nat) = 164 + 164 + 164 + 164" by simp
  then have "(gameLoop 0 0 ^^ 656) freshGame
      = (gameLoop 0 0 ^^ 164) ((gameLoop 0 0 ^^ 164) ((gameLoop 0 0 ^^ 164)
          ((gameLoop 0 0 ^^ 164) (rally 400 300 5 (- 2) 0 0))))"
    by (simp only: funpow_add o_apply fresh_rally)
  also have "\<dots> = rally 400 300 5 (- 2) 4 4"
    by (simp add: two_rounds)
  finally show ?thesis .
qed

lemma match_point:
  "(gameLoop 0 0 ^^ 737) freshGame = rally 805 138 5 (- 2) 4 4"
proof -
  have "(737::nat) = 81 + 656" by simp
  then have "(gameLoop 0 0 ^^ 737) freshGame
      = (gameLoop 0 0 ^^ 81) ((gameLoop 0 0 ^^ 656) freshGame)"
    by (simp only: funpow_add o_apply)
  also have "\<dots> = rally 805 138 5 (- 2) 4 4"
    using flight_right [of 81 0 0 4 4] by (simp add: eight_rounds)
  finally show ?thesis .
qed

lemma run_frames: "run (replicate n (Frame r1 r2)) gs = (gameLoop r1 r2 ^^ n) gs"
proof -
  have "step (Frame r1 r2) = gameLoop r1 r2" by (rule ext) simp
  then show ?thesis by (simp add: run_def)
qed

lemma run_append: "run (es @ es') gs = run es' (run es gs)"
  by (simp add: run_def)

lemma run_single: "run [e] gs = step e gs"
  by (simp add: run_def)

lemma match_point_state:
  "run matchPoint freshGame =
     (rally 805 138 5 (- 2) 4 4)\<lparr> keysPressed := initialKeysPressed(''w'' \<mapsto> True) \<rparr>"
proof -
  have "run (replicate 737 (Frame 0 0)) freshGame
      = rally 805 138 5 (- 2) 4 4"
    using match_point by (simp add: run_frames)
  then show ?thesis
    by (simp add: matchPoint_def run_append run_single keydown_def Let_def lower_keys
          keys_defs rally_fields keys_rally)
qed

lemma frame_wins:
  "gameLoop 0 0 ((rally 805 138 5 (- 2) 4 4)\<lparr> keysPressed := initialKeysPressed(''w'' \<mapsto> True) \<rparr>)
     = (rally 810 136 0 0 5 4)
         \<lparr> keysPressed := initialKeysPressed(''w'' \<mapsto> True),
           paddleLeft := (paddleLeft (rally 810 136 0 0 5 4))\<lparr> y := 242, dy := - 1 \<rparr>,
           gameOver := True, winner := Some Player1 \<rparr>"
  by (simp add: gameLoop_def processPaddleInputs_def held_def lower_keys keys_defs init_keys
        updateGameState_def updateBall_def moveBall_def
        checkWinCondition_def updatePaddlePosition_def clamp_def checkBallPaddleCollision_def
        checkAABBCollision_def Let_def rally_def freshGame_def createInitialGameState_def cfg)

lemma frame_160:
  "run (replicate 160 (Frame 0 0)) freshGame
     = rally 10 144 (- 5) (- 2) 1 0"
proof -
  have "(160::nat) = 78 + 82" by simp
  then have "(gameLoop 0 0 ^^ 160) (rally 400 300 5 (- 2) 0 0)
      = (gameLoop 0 0 ^^ 78) ((gameLoop 0 0 ^^ 82) (rally 400 300 5 (- 2) 0 0))"
    by (simp only: funpow_add o_apply)
  also have "\<dots> = (gameLoop 0 0 ^^ 78) (rally 400 300 (- 5) (- 2) 1 0)"
    by (simp add: round_right)
  also have "\<dots> = rally 10 144 (- 5) (- 2) 1 0"
    using flight_left [of 78 0 0 1 0] by simp
  finally show ?thesis
    by (simp add: run_frames fresh_rally)
qed

lemma updateBall_rally_flight:
  assumes "8 \<le> b + d" and "b + d \<le> 592"
    and "(43 \<le> a + c \<and> a + c \<le> 757) \<or> b + d \<le> 242"
    and "- 8 \<le> a + c" and "a + c \<le> 808"
  shows "updateBall r1 r2 (rally a b c d e f) = rally (a + c) (b + d) c d e f"
  using frame_flight [OF assms, of r1 r2 e f]
  by (simp add: gameLoop_def inputs_rally updateGameState_rally)





section \<open>Scoring\<close>

lemma radius_handle: "radius (handleBallPaddleCollision b p) = radius b"
  by (simp add: handleBallPaddleCollision_def Let_def)

lemma radius_moveBall: "radius (moveBall gs) = radius (ball gs)"
  by (simp add: moveBall_def Let_def radius_handle)

lemma checkWinCondition_keeps:
  "paddleLeft (checkWinCondition gs) = paddleLeft gs"
  "paddleRight (checkWinCondition gs) = paddleRight gs"
  by (simp_all add: checkWinCondition_def Let_def)






text \<open>
  C2, as the code has it.  A point is scored when the whole ball has passed a
  boundary, that is when its trailing edge has crossed it: when the ball moved by
  this frame has \<open>x + radius < 0\<close> the right paddle's score goes up by one, and when
  it has \<open>x - radius > width\<close> (on a field of non-negative width, with a ball of
  non-negative radius) the left paddle's score goes up by one.
\<close>

theorem updateBall_scores_when_passed:
  "(x (moveBall gs) + radius (moveBall gs) < 0 \<longrightarrow>
      score (paddleRight (updateBall r1 r2 gs)) = score (paddleRight gs) + 1) \<and>
   (0 \<le> radius (ball gs) \<and> 0 \<le> Dimensions.width (canvas gs) \<and>
    x (moveBall gs) - radius (moveBall gs) > Dimensions.width (canvas gs) \<longrightarrow>
      score (paddleLeft (updateBall r1 r2 gs)) = score (paddleLeft gs) + 1)"
  by (auto simp: updateBall_def Let_def checkWinCondition_keeps
        radius_moveBall)

theorem updateBall_scores_when_passed_witness:
  "x (moveBall (rally (- 5) 138 (- 5) (- 2) 1 0)) + radius (moveBall (rally (- 5) 138 (- 5) (- 2) 1 0)) < 0 \<and>
   score (paddleRight (updateBall 0 0 (rally (- 5) 138 (- 5) (- 2) 1 0)))
     = score (paddleRight (rally (- 5) 138 (- 5) (- 2) 1 0)) + 1 \<and>
   0 \<le> radius (ball (rally 805 138 5 (- 2) 0 0)) \<and>
   0 \<le> Dimensions.width (canvas (rally 805 138 5 (- 2) 0 0)) \<and>
   x (moveBall (rally 805 138 5 (- 2) 0 0)) - radius (moveBall (rally 805 138 5 (- 2) 0 0))
     > Dimensions.width (canvas (rally 805 138 5 (- 2) 0 0)) \<and>
   score (paddleLeft (updateBall 0 0 (rally 805 138 5 (- 2) 0 0)))
     = score (paddleLeft (rally 805 138 5 (- 2) 0 0)) + 1"
  using updateBall_scores_when_passed [of "rally (- 5) 138 (- 5) (- 2) 1 0" 0 0]
        updateBall_scores_when_passed [of "rally 805 138 5 (- 2) 0 0" 0 0]
  by (simp add: moveBall_rally rally_fields)

text \<open>
  C2, as stated, fails.  Frame 161 of the rally starts with the ball moving left and
  its leading edge \<open>x - radius\<close> at 2, inside the field, and ends with the leading
  edge at -3, beyond the left boundary; the right paddle's score is the same before
  and after.
\<close>

theorem leading_edge_no_score:
  "run (replicate 160 (Frame 0 0)) freshGame
     = rally 10 144 (- 5) (- 2) 1 0 \<and>
   speedX (ball (rally 10 144 (- 5) (- 2) 1 0)) < 0 \<and>
   0 \<le> x (ball (rally 10 144 (- 5) (- 2) 1 0)) - radius (ball (rally 10 144 (- 5) (- 2) 1 0)) \<and>
   x (ball (updateBall 0 0 (rally 10 144 (- 5) (- 2) 1 0)))
     - radius (ball (updateBall 0 0 (rally 10 144 (- 5) (- 2) 1 0))) < 0 \<and>
   score (paddleRight (updateBall 0 0 (rally 10 144 (- 5) (- 2) 1 0)))
     = score (paddleRight (rally 10 144 (- 5) (- 2) 1 0))"
  by (simp add: frame_160 updateBall_rally_flight rally_fields)

section \<open>Game over\<close>

lemma ballStopped_init: "ballStopped (createInitialGameState a b)"
  by (simp add: ballStopped_def createInitialGameState_def)

lemma ballStopped_checkWin: "ballStopped (checkWinCondition gs)"
  by (simp add: ballStopped_def checkWinCondition_def Let_def)

lemma gameOver_checkWin_ball:
  "gameOver (checkWinCondition gs) \<Longrightarrow>
     speedX (ball (checkWinCondition gs)) = 0 \<and> speedY (ball (checkWinCondition gs)) = 0"
  by (simp add: checkWinCondition_def Let_def split: if_splits)

lemma ballStopped_updateBall:
  "\<not> gameOver gs \<Longrightarrow> ballStopped (updateBall r1 r2 gs)"
  by (auto simp: ballStopped_def updateBall_def Let_def
        dest: gameOver_checkWin_ball)

lemma ballStopped_updateGameState:
  "ballStopped gs \<Longrightarrow> ballStopped (updateGameState r1 r2 gs)"
proof (cases "gamePaused gs \<or> gameOver gs")
  case True
  assume "ballStopped gs"
  with True show ?thesis by (simp add: updateGameState_noop)
next
  case False
  then show ?thesis
    by (simp add: updateGameState_def Let_def ballStopped_updateBall)
qed

lemma ballStopped_inputs: "ballStopped gs \<Longrightarrow> ballStopped (processPaddleInputs gs)"
  by (simp add: ballStopped_def processPaddleInputs_def Let_def)

lemma ballStopped_step: "ballStopped gs \<Longrightarrow> ballStopped (step e gs)"
proof (cases e)
  case (Frame r1 r2)
  assume "ballStopped gs"
  then show ?thesis
    by (simp add: Frame gameLoop_def ballStopped_updateGameState ballStopped_inputs)
next
  case (KeyDown k r1 r2)
  assume "ballStopped gs"
  then show ?thesis
    by (simp add: KeyDown keydown_def Let_def ballStopped_init)
       (simp add: ballStopped_def)
next
  case (KeyUp k)
  assume "ballStopped gs"
  then show ?thesis by (simp add: KeyUp keyup_def ballStopped_def)
next
  case (Restart r1 r2)
  show ?thesis by (simp add: Restart ballStopped_init)
qed

lemma ballStopped_run: "ballStopped gs \<Longrightarrow> ballStopped (run es gs)"
  unfolding run_def by (induction es arbitrary: gs) (simp_all add: ballStopped_step)

lemma gameLoop_over:
  "gameOver gs \<Longrightarrow> gameLoop r1 r2 gs =
     gs\<lparr> paddleLeft := (paddleLeft gs)\<lparr> dy := 0 \<rparr>, paddleRight := (paddleRight gs)\<lparr> dy := 0 \<rparr> \<rparr>"
  by (simp add: gameLoop_def processPaddleInputs_def updateGameState_def)

text \<open>
  C4, as the code has it.  In every state reached from a fresh game by frames, key
  events and restarts, after one more frame: if the game is over the ball's two
  speeds are zero; and if the game was already over before the frame, the \<open>dy\<close> of
  both paddles is zero.
\<close>

theorem gameOver_freezes:
  "(gameOver (step (Frame r1 r2) (run es (createInitialGameState a b))) \<longrightarrow>
      speedX (ball (step (Frame r1 r2) (run es (createInitialGameState a b)))) = 0 \<and>
      speedY (ball (step (Frame r1 r2) (run es (createInitialGameState a b)))) = 0) \<and>
   (gameOver (run es (createInitialGameState a b)) \<longrightarrow>
      dy (paddleLeft (step (Frame r1 r2) (run es (createInitialGameState a b)))) = 0 \<and>
      dy (paddleRight (step (Frame r1 r2) (run es (createInitialGameState a b)))) = 0)"
proof -
  have "ballStopped (run es (createInitialGameState a b))"
    by (simp add: ballStopped_run ballStopped_init)
  then have "ballStopped (step (Frame r1 r2) (run es (createInitialGameState a b)))"
    by (rule ballStopped_step)
  then show ?thesis
    by (simp add: ballStopped_def gameLoop_over)
qed

theorem gameOver_freezes_witness:
  "gameOver (run (matchPoint @ [Frame 0 0]) freshGame) \<and>
   gameOver (step (Frame 0 0) (run (matchPoint @ [Frame 0 0]) freshGame)) \<and>
   speedX (ball (step (Frame 0 0)
     (run (matchPoint @ [Frame 0 0]) freshGame))) = 0 \<and>
   speedY (ball (step (Frame 0 0)
     (run (matchPoint @ [Frame 0 0]) freshGame))) = 0 \<and>
   dy (paddleLeft (step (Frame 0 0)
     (run (matchPoint @ [Frame 0 0]) freshGame))) = 0 \<and>
   dy (paddleRight (step (Frame 0 0)
     (run (matchPoint @ [Frame 0 0]) freshGame))) = 0"
proof -
  have over: "gameOver (run (matchPoint @ [Frame 0 0]) freshGame)"
    by (simp add: run_append run_single match_point_state frame_wins)
  then have "gameOver (step (Frame 0 0)
      (run (matchPoint @ [Frame 0 0]) freshGame))"
    by (simp add: gameLoop_over)
  with over show ?thesis
    using gameOver_freezes [of 0 0 "matchPoint @ [Frame 0 0]" "0.75" "0.25", folded freshGame_def]
    by simp
qed

text \<open>
  C4, as stated, fails in the frame that scores the winning point.  After
  \<open>matchPoint\<close> the left player holds the up key; the next frame sets the left
  paddle's \<open>dy\<close> to -1, then scores the fifth point and ends the game, and the
  \<open>dy\<close> is still -1 when the frame is over.
\<close>

theorem winning_frame_keeps_intent:
  "gameOver (step (Frame 0 0) (run matchPoint freshGame)) \<and>
   dy (paddleLeft (step (Frame 0 0) (run matchPoint freshGame))) = - 1 \<and>
   dy (paddleLeft (step (Frame 0 0) (run matchPoint freshGame))) \<noteq> 0"
  by (simp add: match_point_state frame_wins)

end
